theory Spec2Isabelle
  imports Complex_Main "HOL-Library.Sublist" "HOL-Library.Multiset"
begin

section \<open>JavaScript values and string primitives used by the build file\<close>

text \<open>
  The build file is JavaScript. Strings are modelled as \<^typ>\<open>string\<close>, arrays as lists,
  and the string and array methods the build file calls are written out below with the
  results ECMAScript gives them, including the corner cases (\<open>-1\<close> for a failed search,
  clamped arguments of \<open>substring\<close> and \<open>slice\<close>, \<open>undefined\<close> for a read past the end).
\<close>

text \<open>\<open>s.indexOf(pat)\<close>: the first position where \<open>pat\<close> starts, or \<open>-1\<close>.\<close>

fun indexOf :: "string \<Rightarrow> string \<Rightarrow> int" where
  "indexOf [] pat = (if pat = [] then 0 else - 1)"
| "indexOf (c # cs) pat =
     (if prefix pat (c # cs) then 0
      else (let r = indexOf cs pat in if r = - 1 then - 1 else r + 1))"

text \<open>\<open>s.lastIndexOf(pat)\<close>: the last position where \<open>pat\<close> starts, or \<open>-1\<close>.\<close>

fun lastIndexOf :: "string \<Rightarrow> string \<Rightarrow> int" where
  "lastIndexOf [] pat = (if pat = [] then 0 else - 1)"
| "lastIndexOf (c # cs) pat =
     (let r = lastIndexOf cs pat in
      if r \<noteq> - 1 then r + 1
      else if prefix pat (c # cs) then 0 else - 1)"

text \<open>\<open>s.substring(start)\<close>: a start below zero counts as zero, one past the end as the
  length.\<close>

definition substring :: "string \<Rightarrow> int \<Rightarrow> string" where
  "substring s start =
     (let n = int (length s);
          k = (if start < 0 then 0 else if n < start then n else start)
      in drop (nat k) s)"

text \<open>\<open>xs.join(sep)\<close> for an array of strings.\<close>

fun join :: "string \<Rightarrow> string list \<Rightarrow> string" where
  "join sep [] = []"
| "join sep [x] = x"
| "join sep (x # y # ys) = x @ sep @ join sep (y # ys)"

text \<open>\<open>s.split(re)\<close> for a regular expression that matches exactly one character of a
  class (\<open>/\n/g\<close>, \<open>/\s/g\<close>): every matching character separates two fields, so the result
  is never empty and \<open>"".split(re)\<close> is \<open>[""]\<close>.\<close>

fun split :: "(char \<Rightarrow> bool) \<Rightarrow> string \<Rightarrow> string list" where
  "split sep [] = [[]]"
| "split sep (c # cs) =
     (let r = split sep cs in
      if sep c then [] # r else (c # hd r) # tl r)"

text \<open>The class \<open>\s\<close> on the ASCII range (tab, line feed, vertical tab, form feed,
  carriage return, space), and the line feed of \<open>/\n/\<close>.\<close>

definition whitespace :: "char \<Rightarrow> bool" where
  "whitespace c = (c = CHR 0x09 \<or> c = CHR 0x0A \<or> c = CHR 0x0B \<or> c = CHR 0x0C
     \<or> c = CHR 0x0D \<or> c = CHR '' '')"

definition newline :: "char \<Rightarrow> bool" where
  "newline c = (c = CHR 0x0A)"

text \<open>\<open>s.trim()\<close>.\<close>

definition trim :: "string \<Rightarrow> string" where
  "trim s = rev (dropWhile whitespace (rev (dropWhile whitespace s)))"

text \<open>\<open>xs.slice(start)\<close>: a negative start counts from the end, and is clamped.\<close>

definition slice :: "'a list \<Rightarrow> int \<Rightarrow> 'a list" where
  "slice xs start =
     (let n = int (length xs);
          k = (if start < 0 then max (n + start) 0 else min start n)
      in drop (nat k) xs)"

text \<open>\<open>xs[i]\<close> is \<open>undefined\<close> past the end (\<^const>\<open>None\<close>), and \<open>undefined\<close> concatenated
  to a string reads \<open>"undefined"\<close>.\<close>

definition at_index :: "'a list \<Rightarrow> nat \<Rightarrow> 'a option" where
  "at_index xs i = (if i < length xs then Some (xs ! i) else None)"

definition to_string :: "string option \<Rightarrow> string" where
  "to_string v = (case v of None \<Rightarrow> ''undefined'' | Some s \<Rightarrow> s)"

section \<open>Helpers of the build file\<close>

text \<open>
  \<^verbatim>\<open>function fileType(extension) {
    return function(filename) {
        return filename.substring(filename.lastIndexOf(".") + 1) === extension;
    };
}\<close>
\<close>

definition fileType :: "string \<Rightarrow> string \<Rightarrow> bool" where
  "fileType extension filename =
     (substring filename (lastIndexOf filename ''.'' + 1) = extension)"

section \<open>The process: state, outcomes, sequencing\<close>

text \<open>
  A task of the build file runs inside one process. What is observed of that process
  is kept in a record: the regular files it reads and writes (path to text), the
  external commands it has issued so far, in order, what it has echoed to the standard
  output (a format string with its numeric arguments, as \<open>echo\<close> receives them) and to the
  standard error, and a ghost log of the release stages entered, which no decision of
  the build file reads.
\<close>

datatype jsnum = Num real | Infinity

datatype release_state =
  ValidateTest | BumpVersion | UpdateChangelog | PushTags | PublishPackage | RepublishSite

record world =
  files :: "string \<rightharpoonup> string"
  commands :: "string list"
  stdout :: "(string \<times> jsnum list) list"
  stderr :: "string list"
  stages :: "release_state list"

text \<open>A step either returns a value, ends the process with an exit status (\<open>exit(1)\<close>),
  or throws an exception nobody catches.\<close>

datatype 'a outcome = Return 'a | Exit nat | Throw string

type_synonym 'a proc = "world \<Rightarrow> 'a outcome \<times> world"

definition return :: "'a \<Rightarrow> 'a proc" where
  "return x w = (Return x, w)"

definition exit :: "nat \<Rightarrow> 'a proc" where
  "exit code w = (Exit code, w)"

definition throw :: "string \<Rightarrow> 'a proc" where
  "throw e w = (Throw e, w)"

text \<open>Statement sequencing: the rest runs only if the first part returned.\<close>

definition bind :: "'a proc \<Rightarrow> ('a \<Rightarrow> 'b proc) \<Rightarrow> 'b proc" where
  "bind f g w =
     (case f w of
        (Return x, w') \<Rightarrow> g x w'
      | (Exit code, w') \<Rightarrow> (Exit code, w')
      | (Throw e, w') \<Rightarrow> (Throw e, w'))"

definition echo_fmt :: "string \<Rightarrow> jsnum list \<Rightarrow> unit proc" where
  "echo_fmt fmt args w = (Return (), w\<lparr>stdout := stdout w @ [(fmt, args)]\<rparr>)"

definition echo :: "string \<Rightarrow> unit proc" where
  "echo s = echo_fmt s []"

text \<open>\<open>console.error(fmt, name)\<close> with one \<open>%s\<close> in \<open>fmt\<close>: the caller passes the text
  with the name already substituted.\<close>

definition console_error :: "string \<Rightarrow> unit proc" where
  "console_error s w = (Return (), w\<lparr>stderr := stderr w @ [s]\<rparr>)"

text \<open>\<open>exec(cmd, opts, callback)\<close>: the asynchronous form. The command is started and the
  callback runs when it completes, whatever its exit status (the build file's callbacks
  ignore their arguments).\<close>

definition exec_async :: "string \<Rightarrow> unit proc" where
  "exec_async cmd w = (Return (), w\<lparr>commands := commands w @ [cmd]\<rparr>)"

section \<open>Settings and data\<close>

definition PERF_MULTIPLIER :: real where
  "PERF_MULTIPLIER = 7500000"

definition NODE :: string where
  "NODE = ''node ''"

definition NODE_MODULES :: string where
  "NODE_MODULES = ''./node_modules/''"

definition TEMP_DIR :: string where
  "TEMP_DIR = ''./tmp/''"

definition BUILD_DIR :: string where
  "BUILD_DIR = ''./build/''"

definition MOCHA :: string where
  "MOCHA = NODE_MODULES @ ''mocha/bin/_mocha ''"

definition ESLINT :: string where
  "ESLINT = NODE @ '' bin/eslint.js ''"

section \<open>The performance gate\<close>

text \<open>
  Numbers are IEEE doubles in the build file; the model takes the real numbers they
  denote, so the rounding of a quotient is not modelled. What is modelled of the doubles
  is the one non-finite value the gate can meet: the positive constant divided by a clock
  speed of zero is \<open>Infinity\<close>, which no duration exceeds.
\<close>

definition js_divide :: "real \<Rightarrow> nat \<Rightarrow> jsnum" where
  "js_divide a b = (if b = 0 then Infinity else Num (a / real b))"

fun js_gt :: "real \<Rightarrow> jsnum \<Rightarrow> bool" where
  "js_gt x (Num m) = (m < x)"
| "js_gt x Infinity = False"

text \<open>\<open>xs.sort(comparefn)\<close> on a short array: insertion sort, an element moving left past
  the elements the comparison function puts after it.\<close>

fun insert_by :: "('a \<Rightarrow> 'a \<Rightarrow> real) \<Rightarrow> 'a \<Rightarrow> 'a list \<Rightarrow> 'a list" where
  "insert_by comparefn x [] = [x]"
| "insert_by comparefn x (y # ys) =
     (if 0 < comparefn y x then x # y # ys else y # insert_by comparefn x ys)"

definition array_sort :: "('a \<Rightarrow> 'a \<Rightarrow> real) \<Rightarrow> 'a list \<Rightarrow> 'a list" where
  "array_sort comparefn xs = foldl (\<lambda>acc x. insert_by comparefn x acc) [] xs"

text \<open>\<open>process.hrtime(start)\<close> gives \<open>[seconds, nanoseconds]\<close>; the build file turns it
  into milliseconds: \<open>(diff[0] * 1e9 + diff[1]) / 1000000\<close>.\<close>

definition actual_ms :: "nat \<times> nat \<Rightarrow> real" where
  "actual_ms diff = (real (fst diff) * 1000000000 + real (snd diff)) / 1000000"

text \<open>
  \<open>target.perf\<close>. The environment supplies \<open>os.cpus()\<close> (the clock speed of each
  processor, in MHz) and the three elapsed times \<open>process.hrtime\<close> measures. Reading
  \<open>os.cpus()[0].speed\<close> of an empty list throws a \<open>TypeError\<close>. \<open>max\<close> of the source is
  \<open>max'\<close> here.
\<close>

definition target_perf ::
  "nat list \<Rightarrow> nat \<times> nat \<Rightarrow> nat \<times> nat \<Rightarrow> nat \<times> nat \<Rightarrow> unit proc" where
  "target_perf cpus diff1 diff2 diff3 =
     (case at_index cpus 0 of
        None \<Rightarrow> throw ''TypeError''
      | Some cpuSpeed \<Rightarrow>
          (let results = [];
               max' = js_divide PERF_MULTIPLIER cpuSpeed;
               cmd = ESLINT @ ''./tests/performance/jshint.js''
           in
           bind (echo_fmt ''CPU Speed is %d with multiplier %d''
                   [Num (real cpuSpeed), Num PERF_MULTIPLIER]) (\<lambda>_.
           bind (exec_async cmd) (\<lambda>_.
             let actual = actual_ms diff1;
                 results = results @ [actual]
             in
             bind (echo_fmt ''Performance Run #1:  %dms (limit: %dms)'' [Num actual, max']) (\<lambda>_.
             bind (exec_async cmd) (\<lambda>_.
               let actual = actual_ms diff2;
                   results = results @ [actual]
               in
               bind (echo_fmt ''Performance Run #2:  %dms (limit: %dms)'' [Num actual, max']) (\<lambda>_.
               bind (exec_async cmd) (\<lambda>_.
                 let actual = actual_ms diff3;
                     results = results @ [actual]
                 in
                 bind (echo_fmt ''Performance Run #3:  %dms (limit: %dms)'' [Num actual, max']) (\<lambda>_.
                   let results = array_sort (\<lambda>a b. a - b) results in
                   if (case at_index results 1 of None \<Rightarrow> False | Some r \<Rightarrow> js_gt r max')
                   then
                     bind (echo_fmt ''Performance budget exceeded: %dms (limit: %dms)''
                             [Num actual, max']) (\<lambda>_.
                     exit 1)
                   else
                     echo_fmt ''Performance budget ok:  %dms (limit: %dms)''
                       [Num actual, max'])))))))))"

text \<open>The decision statistic in the words of the specification: the second of the three
  samples in ascending order.\<close>

definition median3 :: "real \<Rightarrow> real \<Rightarrow> real \<Rightarrow> real" where
  "median3 a b c = sort [a, b, c] ! 1"

section \<open>The environment of the process\<close>

text \<open>
  What lies outside the build file is a parameter of the model:
  \<^item> \<open>sys\<close>: an external command, given the commands issued before it, answers with an
    exit status and the text of its standard output;
  \<^item> \<open>find_result\<close>: the paths \<open>find(dir)\<close> of shelljs enumerates under a directory, in
    its order, for the current files;
  \<^item> \<open>is_dir\<close>: \<open>test("-d", path)\<close>;
  \<^item> \<open>shell\<close>: the directory-level built-ins of shelljs (\<open>mkdir\<close>, \<open>cp -r\<close>, \<open>rm -r\<close>,
    \<open>cd\<close>), named by their command line: the files after the operation, or \<^const>\<open>None\<close>
    when it fails;
  \<^item> \<open>confRules\<close>: the own property names of the \<open>rules\<close> object of \<open>conf/eslint.json\<close>,
    a file of the repository that \<open>require\<close> loads;
  \<^item> \<open>changelog_date\<close> and \<open>site_date\<close>: what \<open>dateformat(now, "mmmm d, yyyy")\<close> and
    \<open>dateformat(new Date())\<close> print for the current date;
  \<^item> \<open>cwd\<close>: what \<open>pwd()\<close> returns.
\<close>

record env =
  sys :: "string list \<Rightarrow> string \<Rightarrow> nat \<times> string"
  find_result :: "(string \<rightharpoonup> string) \<Rightarrow> string \<Rightarrow> string list"
  is_dir :: "(string \<rightharpoonup> string) \<Rightarrow> string \<Rightarrow> bool"
  shell :: "string \<Rightarrow> (string \<rightharpoonup> string) \<Rightarrow> (string \<rightharpoonup> string) option"
  confRules :: "string list"
  changelog_date :: string
  site_date :: string
  cwd :: string

text \<open>
  Modelled from the spec: the Command Executor (\<open>exec\<close> of shelljs under \<open>shelljs/make\<close>,
  and \<open>nodeCLI.exec\<close> of shelljs-nodecli, neither part of the source). It runs the command
  synchronously and returns its output; any non-zero exit status is fatal for the whole
  chain: the process exits with status 1 and nothing after it runs.
\<close>

definition exec :: "env \<Rightarrow> string \<Rightarrow> string proc" where
  "exec env cmd w =
     (let (code, output) = sys env (commands w) cmd;
          w' = w\<lparr>commands := commands w @ [cmd]\<rparr>
      in if code \<noteq> 0 then (Exit 1, w') else (Return output, w'))"

definition nodeCLI_exec :: "env \<Rightarrow> string list \<Rightarrow> string proc" where
  "nodeCLI_exec env args = exec env (join '' '' args)"

text \<open>
  The file built-ins of shelljs, with \<open>config.fatal\<close> set as \<open>shelljs/make\<close> sets it: an
  error of a built-in ends the process with status 1. \<open>cat\<close> of several files puts a
  line feed between them; \<open>rm\<close> and \<open>mv\<close> need their source to exist, and \<open>mv\<close> without
  \<open>-f\<close> refuses an existing destination.
\<close>

definition test_f :: "string \<Rightarrow> bool proc" where
  "test_f path w = (Return (files w path \<noteq> None), w)"

definition test_d :: "env \<Rightarrow> string \<Rightarrow> bool proc" where
  "test_d env path w = (Return (is_dir env (files w) path), w)"

definition find_sh :: "env \<Rightarrow> string \<Rightarrow> string list proc" where
  "find_sh env dir w = (Return (find_result env (files w) dir), w)"

definition cat :: "string list \<Rightarrow> string proc" where
  "cat paths w =
     (if \<exists>p \<in> set paths. files w p = None then (Exit 1, w)
      else (Return (join ''\<newline>'' (map (\<lambda>p. the (files w p)) paths)), w))"

definition to :: "string \<Rightarrow> string \<Rightarrow> unit proc" where
  "to text path w = (Return (), w\<lparr>files := (files w)(path \<mapsto> text)\<rparr>)"

definition toEnd :: "string \<Rightarrow> string \<Rightarrow> unit proc" where
  "toEnd text path w =
     (Return (),
      w\<lparr>files := (files w)(path \<mapsto> (case files w path of None \<Rightarrow> text | Some old \<Rightarrow> old @ text))\<rparr>)"

definition rm :: "string \<Rightarrow> unit proc" where
  "rm path w =
     (if files w path = None then (Exit 1, w)
      else (Return (), w\<lparr>files := (files w)(path := None)\<rparr>))"

definition mv :: "string \<Rightarrow> string \<Rightarrow> unit proc" where
  "mv source dest w =
     (case files w source of
        None \<Rightarrow> (Exit 1, w)
      | Some text \<Rightarrow>
          if files w dest \<noteq> None then (Exit 1, w)
          else (Return (), w\<lparr>files := (files w)(source := None, dest \<mapsto> text)\<rparr>))"

definition shell_op :: "env \<Rightarrow> string \<Rightarrow> unit proc" where
  "shell_op env op w =
     (case shell env op (files w) of
        None \<Rightarrow> (Exit 1, w)
      | Some fs \<Rightarrow> (Return (), w\<lparr>files := fs\<rparr>))"

text \<open>\<open>path.basename(p, ext)\<close> of Node: the last component of the path, trailing slashes
  aside, without \<open>ext\<close> when it ends with it.\<close>

definition path_basename :: "string \<Rightarrow> string \<Rightarrow> string" where
  "path_basename p ext =
     (let trimmed = rev (dropWhile (\<lambda>c. c = CHR ''/'') (rev p));
          f = rev (takeWhile (\<lambda>c. c \<noteq> CHR ''/'') (rev trimmed))
      in if ext \<noteq> [] \<and> suffix ext f then take (length f - length ext) f else f)"

text \<open>\<open>obj.hasOwnProperty(key)\<close> for an object given by its own property names.\<close>

definition hasOwnProperty :: "string list \<Rightarrow> string \<Rightarrow> bool" where
  "hasOwnProperty keys key = (key \<in> set keys)"

text \<open>The File Set Resolver, \<open>find(dir).filter(fileType(extension))\<close>: the paths under
  a directory that have the extension, in the order of the enumeration.\<close>

definition file_set :: "env \<Rightarrow> string \<Rightarrow> string \<Rightarrow> string list proc" where
  "file_set env dir extension =
     bind (find_sh env dir) (\<lambda>found.
     return (filter (fileType extension) found))"

text \<open>The files the tasks work on, resolved once when the build file is loaded.\<close>

record data =
  JS_FILES :: string
  JSON_FILES :: string
  TEST_FILES :: string

definition load_data :: "env \<Rightarrow> data proc" where
  "load_data env =
     bind (file_set env ''lib/'' ''js'') (\<lambda>js.
     bind (file_set env ''conf/'' ''json'') (\<lambda>json.
     bind (file_set env ''tests/lib/'' ''js'') (\<lambda>tests.
     return \<lparr>JS_FILES = join '' '' js,
             JSON_FILES = join '' '' json @ '' .eslintrc'',
             TEST_FILES = join '' '' tests\<rparr>)))"

section \<open>The consistency validator\<close>

text \<open>
  The body of the \<open>forEach\<close> callback of \<open>target.checkRuleFiles\<close>: \<open>errors\<close> is the
  counter of the enclosing function, passed in and returned.
\<close>

definition check_rule :: "env \<Rightarrow> string \<Rightarrow> string \<Rightarrow> nat \<Rightarrow> nat proc" where
  "check_rule env rulesIndexText filename errors =
     (let basename = path_basename filename ''.js'' in
      bind (test_f (''docs/rules/'' @ basename @ ''.md'')) (\<lambda>has_doc.
      bind (if \<not> has_doc then
              bind (console_error (''Missing documentation for rule '' @ basename)) (\<lambda>_.
              return (errors + 1))
            else if indexOf rulesIndexText (''('' @ basename @ ''.md)'') = - 1 then
              bind (console_error
                     (''Missing link to documentation for rule '' @ basename @ '' in index'')) (\<lambda>_.
              return (errors + 1))
            else return errors) (\<lambda>errors.
      bind (if \<not> hasOwnProperty (confRules env) basename then
              bind (console_error
                     (''Missing default setting for '' @ basename @ '' in eslint.json'')) (\<lambda>_.
              return (errors + 1))
            else return errors) (\<lambda>errors.
      bind (test_f (''tests/lib/rules/'' @ basename @ ''.js'')) (\<lambda>has_test.
      if \<not> has_test then
        bind (console_error (''Missing tests for rule '' @ basename)) (\<lambda>_.
        return (errors + 1))
      else return errors)))))"

fun forEach_rule :: "env \<Rightarrow> string \<Rightarrow> string list \<Rightarrow> nat \<Rightarrow> nat proc" where
  "forEach_rule env rulesIndexText [] errors = return errors"
| "forEach_rule env rulesIndexText (filename # ruleFiles) errors =
     bind (check_rule env rulesIndexText filename errors)
       (forEach_rule env rulesIndexText ruleFiles)"

definition target_checkRuleFiles :: "env \<Rightarrow> unit proc" where
  "target_checkRuleFiles env =
     bind (echo ''Validating rules'') (\<lambda>_.
     bind (file_set env ''lib/rules/'' ''js'') (\<lambda>ruleFiles.
     bind (cat [''docs/rules/README.md'']) (\<lambda>rulesIndexText.
     let errors = 0 in
     bind (forEach_rule env rulesIndexText ruleFiles errors) (\<lambda>errors.
     if errors \<noteq> 0 then exit 1 else return ()))))"


section \<open>The tasks\<close>

text \<open>\<open>generateRulesIndex(basedir)\<close>: writes a file that requires each rule by name.\<close>

definition generateRulesIndex :: "env \<Rightarrow> string \<Rightarrow> unit proc" where
  "generateRulesIndex env basedir =
     (let output = ''module.exports = function() {\<newline>'';
          output = output @ ''    var rules = Object.create(null);\<newline>''
      in
      bind (file_set env (basedir @ ''rules/'') ''js'') (\<lambda>ruleFiles.
      let output =
            foldl (\<lambda>output filename.
                     let basename = path_basename filename ''.js'' in
                     output @ ''    rules[\"'' @ basename @ ''\"] = require(\"./rules/''
                       @ basename @ ''\");\<newline>'')
              output ruleFiles;
          output = output @ ''\<newline>    return rules;\<newline>};''
      in to output (basedir @ ''load-rules.js'')))"

definition target_lint :: "env \<Rightarrow> data \<Rightarrow> unit proc" where
  "target_lint env d =
     bind (echo ''Validating JSON Files'') (\<lambda>_.
     bind (nodeCLI_exec env [''jsonlint'', ''-q -c'', JSON_FILES d]) (\<lambda>_.
     bind (echo ''Validating JavaScript files'') (\<lambda>_.
     bind (exec env (ESLINT @ JS_FILES d)) (\<lambda>_.
     bind (echo ''Validating JavaScript test files'') (\<lambda>_.
     bind (exec env (ESLINT @ TEST_FILES d)) (\<lambda>_.
     return ()))))))"

definition target_browserify :: "env \<Rightarrow> unit proc" where
  "target_browserify env =
     bind (test_d env TEMP_DIR) (\<lambda>has_temp.
     bind (if \<not> has_temp then shell_op env (''mkdir '' @ TEMP_DIR) else return ()) (\<lambda>_.
     bind (test_d env BUILD_DIR) (\<lambda>has_build.
     bind (if \<not> has_build then shell_op env (''mkdir '' @ BUILD_DIR) else return ()) (\<lambda>_.
     bind (shell_op env (''cp -r lib/* '' @ TEMP_DIR)) (\<lambda>_.
     bind (rm (TEMP_DIR @ ''load-rules.js'')) (\<lambda>_.
     bind (generateRulesIndex env TEMP_DIR) (\<lambda>_.
     bind (nodeCLI_exec env
             [''browserify'', TEMP_DIR @ ''eslint.js'', ''-o'', BUILD_DIR @ ''eslint.js'',
              ''-s eslint'']) (\<lambda>_.
     shell_op env (''rm -r '' @ TEMP_DIR)))))))))"

definition target_test :: "env \<Rightarrow> data \<Rightarrow> unit proc" where
  "target_test env d =
     bind (target_lint env d) (\<lambda>_.
     bind (target_checkRuleFiles env) (\<lambda>_.
     bind (nodeCLI_exec env [''istanbul'', ''cover'', MOCHA, ''-- -c'', TEST_FILES d]) (\<lambda>_.
     bind (nodeCLI_exec env
             [''istanbul'', ''check-coverage'',
              ''--statement 99 --branch 98 --function 99 --lines 99'']) (\<lambda>_.
     bind (target_browserify env) (\<lambda>_.
     bind (nodeCLI_exec env [''mocha-phantomjs'', ''-R dot'', ''tests/tests.htm'']) (\<lambda>_.
     return ()))))))"

definition target_all :: "env \<Rightarrow> data \<Rightarrow> unit proc" where
  "target_all env d = target_test env d"

definition target_docs :: "env \<Rightarrow> unit proc" where
  "target_docs env =
     bind (echo ''Generating documentation'') (\<lambda>_.
     bind (nodeCLI_exec env [''jsdoc'', ''-d jsdoc lib'']) (\<lambda>_.
     echo ''Documentation has been output to /jsdoc''))"

text \<open>\<open>s.replace(pat, rep)\<close> with a string pattern replaces the first occurrence;
  \<open>s.replace(/.md\)/g, ".html)")\<close> replaces every \<open>md)\<close> together with the character
  before it, which may be any character but a line terminator.\<close>

fun replace_first :: "string \<Rightarrow> string \<Rightarrow> string \<Rightarrow> string" where
  "replace_first pat rep [] = (if pat = [] then rep else [])"
| "replace_first pat rep (c # cs) =
     (if prefix pat (c # cs) then rep @ drop (length pat) (c # cs)
      else c # replace_first pat rep cs)"

fun replace_md :: "string \<Rightarrow> string" where
  "replace_md [] = []"
| "replace_md (c # cs) =
     (if c \<noteq> CHR 0x0A \<and> c \<noteq> CHR 0x0D \<and> take 3 cs = ''md)''
      then ''.html)'' @ replace_md (drop 3 cs)
      else c # replace_md cs)"

definition front_matter :: string where
  "front_matter = ''---\<newline>title: ESLint\<newline>layout: doc\<newline>---\<newline><!-- Note: No pull requests accepted for this file. See README.md in the root directory for details. -->\<newline>''"

fun forEach_doc :: "string list \<Rightarrow> unit proc" where
  "forEach_doc [] = return ()"
| "forEach_doc (filename # rest) =
     bind (test_f filename) (\<lambda>is_file.
     bind (if is_file then
             bind (cat [filename]) (\<lambda>text.
             let text = front_matter @ text
             in to (replace_first ''README.html'' ''index.html'' (replace_md text))
                  (replace_first ''README.md'' ''index.md'' filename))
           else return ()) (\<lambda>_.
     forEach_doc rest))"

definition target_gensite :: "env \<Rightarrow> unit proc" where
  "target_gensite env =
     bind (echo ''Generating eslint.org'') (\<lambda>_.
     let docsDir = ''../eslint.github.io/docs'';
         currentDir = cwd env
     in
     bind (shell_op env (''rm -r '' @ docsDir)) (\<lambda>_.
     bind (shell_op env (''mkdir '' @ docsDir)) (\<lambda>_.
     bind (shell_op env (''cp -rf docs/* '' @ docsDir)) (\<lambda>_.
     bind (find_sh env docsDir) (\<lambda>found.
     bind (forEach_doc found) (\<lambda>_.
     bind (shell_op env (''cd '' @ docsDir)) (\<lambda>_.
     bind (exec env ''git add -A .'') (\<lambda>_.
     bind (exec env (''git commit -m \"Autogenerated new docs at '' @ site_date env @ ''\"'')) (\<lambda>_.
     bind (exec env ''git fetch origin && git rebase origin/master'') (\<lambda>_.
     bind (exec env ''git push origin master'') (\<lambda>_.
     shell_op env (''cd '' @ currentDir))))))))))))"

text \<open>
  \<open>target.changelog\<close>. Its two computations on command output are named: the range of
  tags taken from the output of \<open>git tag\<close> (the last two fields, or the only one), and
  the lines kept from the output of \<open>git log\<close>, between two empty strings. \<open>rangeTags[1]\<close>
  is read past the end when there is one tag or none, and then prints as \<open>undefined\<close>.
\<close>

definition rangeTags_of :: "string \<Rightarrow> string list" where
  "rangeTags_of output =
     (let tags = split whitespace (trim output);
          rangeTags = slice tags (int (length tags) - 2)
      in rangeTags)"

definition not_merge :: "string \<Rightarrow> bool" where
  "not_merge line =
     (indexOf line ''Merge pull request'' = - 1 \<and> indexOf line ''Merge branch'' = - 1)"

definition logs_of :: "string \<Rightarrow> string list" where
  "logs_of output =
     (let logs = split newline output;
          logs = filter not_merge logs;
          logs = logs @ [[]];
          logs = [] # logs
      in logs)"

definition target_changelog :: "env \<Rightarrow> unit proc" where
  "target_changelog env =
     bind (exec env ''git tag'') (\<lambda>output.
     let rangeTags = rangeTags_of output;
         timestamp = changelog_date env
     in
     bind (to (to_string (at_index rangeTags 1) @ '' - '' @ timestamp @ ''\<newline>'')
             ''CHANGELOG.tmp'') (\<lambda>_.
     bind (exec env (''git log --pretty=format:\"* %s (%an)\" '' @ join ''..'' rangeTags)) (\<lambda>output.
     let logs = logs_of output in
     bind (toEnd (join ''\<newline>'' logs) ''CHANGELOG.tmp'') (\<lambda>_.
     bind (cat [''CHANGELOG.tmp'', ''CHANGELOG.md'']) (\<lambda>text.
     bind (to text ''CHANGELOG.md.tmp'') (\<lambda>_.
     bind (rm ''CHANGELOG.tmp'') (\<lambda>_.
     bind (rm ''CHANGELOG.md'') (\<lambda>_.
     bind (mv ''CHANGELOG.md.tmp'' ''CHANGELOG.md'') (\<lambda>_.
     bind (exec env ''git add CHANGELOG.md'') (\<lambda>_.
     bind (exec env ''git commit --amend --no-edit'') (\<lambda>_.
     return ())))))))))))"

text \<open>
  \<open>release(type)\<close>. Each call of the source is one stage of the release; entering a stage
  is recorded in the ghost log \<open>stages\<close>.
\<close>

definition stage :: "release_state \<Rightarrow> 'a proc \<Rightarrow> 'a proc" where
  "stage s p w = p (w\<lparr>stages := stages w @ [s]\<rparr>)"

definition release :: "env \<Rightarrow> data \<Rightarrow> string \<Rightarrow> unit proc" where
  "release env d type =
     bind (stage ValidateTest (target_test env d)) (\<lambda>_.
     bind (stage BumpVersion (exec env (''npm version '' @ type))) (\<lambda>_.
     bind (stage UpdateChangelog (target_changelog env)) (\<lambda>_.
     bind (stage PushTags (exec env ''git push origin master --tags'')) (\<lambda>_.
     bind (stage PublishPackage (exec env ''npm publish'')) (\<lambda>_.
     stage RepublishSite (target_gensite env))))))"

definition target_patch :: "env \<Rightarrow> data \<Rightarrow> unit proc" where
  "target_patch env d = release env d ''patch''"

definition target_minor :: "env \<Rightarrow> data \<Rightarrow> unit proc" where
  "target_minor env d = release env d ''minor''"

definition target_major :: "env \<Rightarrow> data \<Rightarrow> unit proc" where
  "target_major env d = release env d ''major''"

text \<open>Running a task: the build file is loaded, which resolves its data, and then the
  task named on the command line is called.\<close>

definition make :: "env \<Rightarrow> (data \<Rightarrow> unit proc) \<Rightarrow> unit proc" where
  "make env target = bind (load_data env) target"

section \<open>The specification's notions\<close>



text \<open>A block of text given by its lines, each ended by a line feed.\<close>

definition as_lines :: "string list \<Rightarrow> string" where
  "as_lines ls = concat (map (\<lambda>l. l @ ''\<newline>'') ls)"






section \<open>A sample repository\<close>

text \<open>
  A small repository with two rules, two tags and three commits since the older tag, one
  of them a merge. Every external command succeeds; copying \<open>lib\<close> into the temporary
  directory brings the rule index along.
\<close>

definition sample_env :: env where
  "sample_env =
     \<lparr>sys = (\<lambda>history cmd.
         if cmd = ''git tag'' then (0, ''v1.0.0\<newline>v1.1.0\<newline>'')
         else if prefix ''git log '' cmd then
           (0, ''* Fix crash in parser (Ann)\<newline>* Merge pull request #12 from bob/semi (Cy)\<newline>* Add rule semi (Bob)'')
         else (0, [])),
      find_result = (\<lambda>fs dir.
         if dir = ''lib/rules/'' then [''lib/rules/'', ''lib/rules/no-eval.js'', ''lib/rules/semi.js'']
         else if dir = ''lib/'' then [''lib/'', ''lib/eslint.js'', ''lib/rules'']
         else if dir = ''conf/'' then [''conf/'', ''conf/eslint.json'']
         else if dir = ''tests/lib/'' then [''tests/lib/'', ''tests/lib/eslint.js'']
         else []),
      is_dir = (\<lambda>fs path. False),
      shell = (\<lambda>op fs.
         if op = ''cp -r lib/* ./tmp/'' then Some (fs(''./tmp/load-rules.js'' \<mapsto> []))
         else Some fs),
      confRules = [''no-eval'', ''semi''],
      changelog_date = ''March 1, 2014'',
      site_date = ''Sat Mar 01 2014'',
      cwd = ''/home/dev/eslint''\<rparr>"

definition sample_files :: "string \<rightharpoonup> string" where
  "sample_files =
     map_of
       [(''docs/rules/README.md'', ''* [no-eval](no-eval.md)\<newline>* [semi](semi.md)''),
        (''docs/rules/no-eval.md'', ''# no-eval''),
        (''docs/rules/semi.md'', ''# semi''),
        (''tests/lib/rules/no-eval.js'', ''// tests''),
        (''tests/lib/rules/semi.js'', ''// tests''),
        (''CHANGELOG.md'', ''v1.0.0 - January 1, 2014\<newline>\<newline>* First release (Ann)\<newline>'')]"

definition sample_world :: world where
  "sample_world =
     \<lparr>files = sample_files, commands = [], stdout = [], stderr = [], stages = []\<rparr>"


definition sample_data :: data where
  "sample_data =
     \<lparr>JS_FILES = ''lib/eslint.js'',
      JSON_FILES = ''conf/eslint.json .eslintrc'',
      TEST_FILES = ''tests/lib/eslint.js''\<rparr>"

section \<open>Facts about the string primitives\<close>

lemma indexOf_ge: "- 1 \<le> indexOf s pat"
  by (induction s) (auto simp: Let_def)

lemma indexOf_absent: "indexOf s pat = - 1 \<longleftrightarrow> \<not> sublist pat s"
proof (induction s)
  case Nil
  then show ?case by simp
next
  case (Cons c cs)
  have "0 \<le> indexOf cs pat + 1"
    using indexOf_ge [of cs pat] by simp
  with Cons show ?case
    by (auto simp: Let_def sublist_Cons_right)
qed

lemma lastIndexOf_ge: "- 1 \<le> lastIndexOf s pat"
  by (induction s) (auto simp: Let_def)






text \<open>The data of the sample repository is what loading the build file resolves.\<close>

lemma sample_data_loaded: "load_data sample_env sample_world = (Return sample_data, sample_world)"
  by (simp add: load_data_def file_set_def find_sh_def bind_def return_def sample_env_def
        sample_data_def fileType_def substring_def)

section \<open>Facts about the performance gate\<close>

lemma insert_by_minus_mset:
  "mset (insert_by (\<lambda>a b. a - b) (x::real) ys) = add_mset x (mset ys)"
  by (induction ys) auto

lemma insert_by_minus_set:
  "set (insert_by (\<lambda>a b. a - b) (x::real) ys) = insert x (set ys)"
  by (induction ys) auto

lemma insert_by_minus_sorted:
  "sorted ys \<Longrightarrow> sorted (insert_by (\<lambda>a b. a - b) (x::real) ys)"
  by (induction ys) (auto simp: insert_by_minus_set)

lemma foldl_insert_by_minus:
  "sorted acc \<Longrightarrow>
   sorted (foldl (\<lambda>acc x. insert_by (\<lambda>a b. a - b) x acc) acc (xs::real list))
   \<and> mset (foldl (\<lambda>acc x. insert_by (\<lambda>a b. a - b) x acc) acc xs) = mset acc + mset xs"
  by (induction xs arbitrary: acc) (simp_all add: insert_by_minus_sorted insert_by_minus_mset)

lemma array_sort_minus: "array_sort (\<lambda>a b. a - b) (xs::real list) = sort xs"
proof -
  have "sorted (array_sort (\<lambda>a b. a - b) xs) \<and> mset (array_sort (\<lambda>a b. a - b) xs) = mset xs"
    using foldl_insert_by_minus [of "[]" xs] by (simp add: array_sort_def)
  then show ?thesis
    by (metis properties_for_sort)
qed

lemma length_sort3: "length (sort [a, b, c :: real]) = 3"
  by simp

text \<open>
  C1. In every run of the performance task in which the three trials complete, the gate
  fails exactly when the median of the three measured durations (the second of the three
  in ascending order) exceeds the threshold, and the threshold is the fixed constant
  divided by the clock speed of the first processor.
\<close>

theorem perf_gate_decides_on_median:
  "fst (target_perf (cpuSpeed # cpus) diff1 diff2 diff3 w) =
     (if js_gt (median3 (actual_ms diff1) (actual_ms diff2) (actual_ms diff3))
           (js_divide PERF_MULTIPLIER cpuSpeed)
      then Exit 1 else Return ())
   \<and> (0 < cpuSpeed \<longrightarrow> js_divide PERF_MULTIPLIER cpuSpeed = Num (7500000 / real cpuSpeed))"
proof -
  have s: "array_sort (\<lambda>a b. a - b) [actual_ms diff1, actual_ms diff2, actual_ms diff3]
      = sort [actual_ms diff1, actual_ms diff2, actual_ms diff3]"
    by (rule array_sort_minus)
  have l: "length (sort [actual_ms diff1, actual_ms diff2, actual_ms diff3]) = 3"
    by (rule length_sort3)
  show ?thesis
    unfolding target_perf_def median3_def
    by (simp add: at_index_def bind_def echo_fmt_def exec_async_def exit_def Let_def s l
          js_divide_def PERF_MULTIPLIER_def del: sort_key_simps)
qed

theorem perf_gate_decides_on_median_witness:
  "fst (target_perf [50000] (0, 200000000) (0, 210000000) (0, 190000000) sample_world) = Exit 1
   \<and> median3 200 210 190 = 200
   \<and> fst (target_perf [50000] (0, 100000000) (0, 120000000) (0, 90000000) sample_world)
       = Return ()
   \<and> median3 100 120 90 = 100
   \<and> js_divide PERF_MULTIPLIER 50000 = Num 150"
  using perf_gate_decides_on_median
      [of 50000 "[]" "(0, 200000000)" "(0, 210000000)" "(0, 190000000)" sample_world]
    perf_gate_decides_on_median
      [of 50000 "[]" "(0, 100000000)" "(0, 120000000)" "(0, 90000000)" sample_world]
  by (simp add: median3_def actual_ms_def js_divide_def PERF_MULTIPLIER_def)

text \<open>
  C6. The claim is that the report of the gate names the median. On a machine of
  3000 MHz (limit 2500 ms) with trials of 3000 ms, 3100 ms and 2000 ms the median is
  3000 ms and the gate fails, but the line it prints names 2000 ms, the duration of the
  third trial: \<open>actual\<close> of the innermost callback, not \<open>results[1]\<close>. With trials of
  2000 ms, 2100 ms and 3000 ms the gate passes on the median 2100 ms and prints 3000 ms.
\<close>

theorem perf_report_names_third_trial:
  "fst (target_perf [3000] (3, 0) (3, 100000000) (2, 0) sample_world) = Exit 1
   \<and> last (stdout (snd (target_perf [3000] (3, 0) (3, 100000000) (2, 0) sample_world)))
       = (''Performance budget exceeded: %dms (limit: %dms)'', [Num 2000, Num 2500])
   \<and> median3 (actual_ms (3, 0)) (actual_ms (3, 100000000)) (actual_ms (2, 0)) = 3000
   \<and> fst (target_perf [3000] (2, 0) (2, 100000000) (3, 0) sample_world) = Return ()
   \<and> last (stdout (snd (target_perf [3000] (2, 0) (2, 100000000) (3, 0) sample_world)))
       = (''Performance budget ok:  %dms (limit: %dms)'', [Num 3000, Num 2500])
   \<and> median3 (actual_ms (2, 0)) (actual_ms (2, 100000000)) (actual_ms (3, 0)) = 2100"
  unfolding target_perf_def median3_def
  by (simp add: at_index_def bind_def echo_fmt_def exec_async_def exit_def Let_def
        js_divide_def PERF_MULTIPLIER_def actual_ms_def array_sort_def sample_world_def)

section \<open>Facts about the consistency validator\<close>






section \<open>Facts about chains of steps\<close>






































section \<open>Facts about the changelog generator\<close>


lemma join_snoc_blank: "join ''\<newline>'' (es @ [[]]) = as_lines es"
proof (induction es)
  case Nil
  show ?case by (simp add: as_lines_def)
next
  case (Cons e es)
  then show ?case by (cases es) (simp_all add: as_lines_def)
qed

lemma join_logs: "join ''\<newline>'' ([] # es @ [[]]) = as_lines ([] # es)"
  using join_snoc_blank [of "[] # es"] by simp





text \<open>The changelog file after a run in which \<open>git tag\<close> and \<open>git log\<close> succeed.\<close>

lemma changelog_files:
  assumes tag: "sys env (commands w) ''git tag'' = (0, tagsOut)"
    and log: "sys env (commands w @ [''git tag''])
        (''git log --pretty=format:\"* %s (%an)\" '' @ join ''..'' (rangeTags_of tagsOut))
        = (0, logOut)"
    and old: "files w ''CHANGELOG.md'' = Some old"
  shows "files (snd (target_changelog env w)) ''CHANGELOG.md'' =
     Some (as_lines ([to_string (at_index (rangeTags_of tagsOut) 1) @ '' - ''
                        @ changelog_date env, []]
             @ filter not_merge (split newline logOut) @ [[]]) @ old)"
  using assms
  unfolding target_changelog_def logs_of_def Let_def join_logs
  by (simp add: bind_def exec_def to_def toEnd_def cat_def rm_def mv_def return_def
        as_lines_def Let_def split: prod.splits)

lemma sample_rangeTags: "rangeTags_of ''v1.0.0\<newline>v1.1.0\<newline>'' = [''v1.0.0'', ''v1.1.0'']"
  by (simp add: rangeTags_of_def trim_def whitespace_def slice_def Let_def)







text \<open>
  C8. The changelog task is not idempotent. When \<open>git tag\<close> and \<open>git log\<close> answer the
  same for both runs and the date is the same, a second run puts the same block in front
  of the file once more: after two runs the file holds the block twice, then the
  previous content. Nothing compares the block with what the file already holds.
\<close>

theorem changelog_twice_duplicates_block:
  fixes env :: env
  defines "block \<equiv> \<lambda>tagsOut logOut.
     as_lines ([to_string (at_index (rangeTags_of tagsOut) 1) @ '' - '' @ changelog_date env, []]
               @ filter not_merge (split newline logOut) @ [[]])"
  assumes tag: "\<And>history. sys env history ''git tag'' = (0, tagsOut)"
    and log: "\<And>history. sys env history
        (''git log --pretty=format:\"* %s (%an)\" '' @ join ''..'' (rangeTags_of tagsOut))
        = (0, logOut)"
    and old: "files w ''CHANGELOG.md'' = Some old"
  shows "files (snd (target_changelog env w)) ''CHANGELOG.md''
       = Some (block tagsOut logOut @ old)
   \<and> files (snd (target_changelog env (snd (target_changelog env w)))) ''CHANGELOG.md''
       = Some (block tagsOut logOut @ block tagsOut logOut @ old)
   \<and> block tagsOut logOut \<noteq> []"
proof -
  have first: "files (snd (target_changelog env w)) ''CHANGELOG.md''
      = Some (block tagsOut logOut @ old)"
    unfolding block_def by (rule changelog_files [OF tag log old])
  have "files (snd (target_changelog env (snd (target_changelog env w)))) ''CHANGELOG.md''
      = Some (block tagsOut logOut @ (block tagsOut logOut @ old))"
    unfolding block_def by (rule changelog_files [OF tag log first [unfolded block_def]])
  moreover have "block tagsOut logOut \<noteq> []"
    by (simp add: block_def as_lines_def)
  ultimately show ?thesis
    using first by simp
qed

theorem changelog_twice_duplicates_block_witness:
  "files (snd (target_changelog sample_env (snd (target_changelog sample_env sample_world))))
     ''CHANGELOG.md'' =
     Some (''v1.1.0 - March 1, 2014\<newline>\<newline>* Fix crash in parser (Ann)\<newline>* Add rule semi (Bob)\<newline>\<newline>''
           @ ''v1.1.0 - March 1, 2014\<newline>\<newline>* Fix crash in parser (Ann)\<newline>* Add rule semi (Bob)\<newline>\<newline>''
           @ ''v1.0.0 - January 1, 2014\<newline>\<newline>* First release (Ann)\<newline>'')"
proof -
  have tag: "sys sample_env history ''git tag'' = (0, ''v1.0.0\<newline>v1.1.0\<newline>'')" for history
    by (simp add: sample_env_def)
  have log: "sys sample_env history
      (''git log --pretty=format:\"* %s (%an)\" ''
         @ join ''..'' (rangeTags_of ''v1.0.0\<newline>v1.1.0\<newline>''))
      = (0, ''* Fix crash in parser (Ann)\<newline>* Merge pull request #12 from bob/semi (Cy)\<newline>* Add rule semi (Bob)'')"
    for history
    by (simp add: sample_env_def)
  have old: "files sample_world ''CHANGELOG.md''
      = Some ''v1.0.0 - January 1, 2014\<newline>\<newline>* First release (Ann)\<newline>''"
    by (simp add: sample_world_def sample_files_def)
  show ?thesis
    using changelog_twice_duplicates_block [OF tag log old]
    by (simp add: as_lines_def sample_rangeTags at_index_def to_string_def sample_env_def
          newline_def not_merge_def Let_def)
qed

text \<open>
  C10. The filter of the changelog keeps a line of the log exactly when the line
  contains neither \<open>Merge pull request\<close> nor \<open>Merge branch\<close>, anywhere in it; the lines of
  the entry are the lines of the log that contain neither. So the line of an ordinary
  commit that only mentions one of the two phrases is left out as well.
\<close>

theorem merge_filter_is_substring_test:
  "not_merge line
     = (\<not> sublist ''Merge pull request'' line \<and> \<not> sublist ''Merge branch'' line)
   \<and> logs_of output
     = [] # filter (\<lambda>line. \<not> sublist ''Merge pull request'' line
                           \<and> \<not> sublist ''Merge branch'' line) (split newline output) @ [[]]"
proof -
  have a: "not_merge l
      = (\<not> sublist ''Merge pull request'' l \<and> \<not> sublist ''Merge branch'' l)" for l
    by (simp add: not_merge_def indexOf_absent)
  have b: "filter not_merge xs
      = filter (\<lambda>line. \<not> sublist ''Merge pull request'' line
                        \<and> \<not> sublist ''Merge branch'' line) xs" for xs
    by (rule filter_cong) (simp_all only: a)
  have c: "logs_of output = [] # filter not_merge (split newline output) @ [[]]"
    by (simp add: logs_of_def Let_def)
  show ?thesis
    unfolding c b using a [of line] by (simp only: simp_thms)
qed

theorem merge_filter_is_substring_test_witness:
  "sublist ''Merge branch'' ''* Describe the Merge branch workflow (Bob)''
   \<and> \<not> not_merge ''* Describe the Merge branch workflow (Bob)''
   \<and> logs_of ''* Fix crash (Ann)\<newline>* Describe the Merge branch workflow (Bob)''
       = [[], ''* Fix crash (Ann)'', []]"
proof -
  have n: "\<not> not_merge ''* Describe the Merge branch workflow (Bob)''"
    by (simp add: not_merge_def Let_def)
  have l: "logs_of ''* Fix crash (Ann)\<newline>* Describe the Merge branch workflow (Bob)''
       = [[], ''* Fix crash (Ann)'', []]"
    by (simp add: logs_of_def not_merge_def newline_def Let_def)
  have p: "\<not> sublist ''Merge pull request'' ''* Describe the Merge branch workflow (Bob)''"
    by (simp add: sublist_code)
  show ?thesis
    using merge_filter_is_substring_test
        [of "''* Describe the Merge branch workflow (Bob)''"
            "''* Fix crash (Ann)\<newline>* Describe the Merge branch workflow (Bob)''"] n l p
    by blast
qed

section \<open>Facts about the file set resolver\<close>




end
